theory Spec2Isabelle
  imports Main
begin

section \<open>The generated header \<^verbatim>\<open>config-capdAlg.h\<close>\<close>

text \<open>
  The repository slice consists of one file, the header that \<^verbatim>\<open>configure\<close> generated for
  the capdAlg module. The header is embedded as the text of the file, byte for byte: one
  string literal per physical line, each ended by the newline character of the file. The
  last line of the file has no newline after it.
\<close>

definition header_path :: string where
  "header_path =
     ''_codeql_build_dir/external/tmp-capd/src/capdAlg/include/capd/config-capdAlg.h''"

definition header_text :: string where
  \<open>header_text =
    ''/* include/capd/config-capdAlg.h.  Generated from config-capdAlg.h.in by configure.  */\<newline>'' @
    ''/* include/capd/config-capdAlg.h.in.  Generated from configure.ac by autoheader.  */\<newline>'' @
    ''\<newline>'' @
    ''/* define if the compiler supports basic C++11 syntax */\<newline>'' @
    ''#define HAVE_CXX11 1\<newline>'' @
    ''\<newline>'' @
    ''/* Define to 1 if you have the <dlfcn.h> header file. */\<newline>'' @
    ''#define HAVE_DLFCN_H 1\<newline>'' @
    ''\<newline>'' @
    ''/* Define to 1 if you have the <inttypes.h> header file. */\<newline>'' @
    ''#define HAVE_INTTYPES_H 1\<newline>'' @
    ''\<newline>'' @
    ''/* Define to 1 if you have the `gmp' library (-lgmp). */\<newline>'' @
    ''/* #undef HAVE_LIBGMP */\<newline>'' @
    ''\<newline>'' @
    ''/* Define to 1 if you have the `gmpxx' library (-lgmpxx). */\<newline>'' @
    ''/* #undef HAVE_LIBGMPXX */\<newline>'' @
    ''\<newline>'' @
    ''/* Define to 1 if you have the `mpfr' library (-lmpfr). */\<newline>'' @
    ''/* #undef HAVE_LIBMPFR */\<newline>'' @
    ''\<newline>'' @
    ''/* Define to 1 if you have the <memory.h> header file. */\<newline>'' @
    ''#define HAVE_MEMORY_H 1\<newline>'' @
    ''\<newline>'' @
    ''/* Have mpcapdAlg */\<newline>'' @
    ''/* #undef HAVE_MPCAPD_ALG */\<newline>'' @
    ''\<newline>'' @
    ''/* PARI library */\<newline>'' @
    ''/* #undef HAVE_PARI */\<newline>'' @
    ''\<newline>'' @
    ''/* Define to 1 if you have the <stdint.h> header file. */\<newline>'' @
    ''#define HAVE_STDINT_H 1\<newline>'' @
    ''\<newline>'' @
    ''/* Define to 1 if you have the <stdlib.h> header file. */\<newline>'' @
    ''#define HAVE_STDLIB_H 1\<newline>'' @
    ''\<newline>'' @
    ''/* Define to 1 if you have the <strings.h> header file. */\<newline>'' @
    ''#define HAVE_STRINGS_H 1\<newline>'' @
    ''\<newline>'' @
    ''/* Define to 1 if you have the <string.h> header file. */\<newline>'' @
    ''#define HAVE_STRING_H 1\<newline>'' @
    ''\<newline>'' @
    ''/* Define to 1 if you have the <sys/stat.h> header file. */\<newline>'' @
    ''#define HAVE_SYS_STAT_H 1\<newline>'' @
    ''\<newline>'' @
    ''/* Define to 1 if you have the <sys/types.h> header file. */\<newline>'' @
    ''#define HAVE_SYS_TYPES_H 1\<newline>'' @
    ''\<newline>'' @
    ''/* Define to 1 if you have the <unistd.h> header file. */\<newline>'' @
    ''#define HAVE_UNISTD_H 1\<newline>'' @
    ''\<newline>'' @
    ''/* Define to the sub-directory where libtool stores uninstalled libraries. */\<newline>'' @
    ''#define LT_OBJDIR ".libs/"\<newline>'' @
    ''\<newline>'' @
    ''/* Define to the address where bug reports for this package should be sent. */\<newline>'' @
    ''#define PACKAGE_BUGREPORT "http://capd.ii.uj.edu.pl"\<newline>'' @
    ''\<newline>'' @
    ''/* Define to the full name of this package. */\<newline>'' @
    ''#define PACKAGE_NAME "capdAlg"\<newline>'' @
    ''\<newline>'' @
    ''/* Define to the full name and version of this package. */\<newline>'' @
    ''#define PACKAGE_STRING "capdAlg 5.1.2"\<newline>'' @
    ''\<newline>'' @
    ''/* Define to the one symbol short name of this package. */\<newline>'' @
    ''#define PACKAGE_TARNAME "capdalg"\<newline>'' @
    ''\<newline>'' @
    ''/* Define to the home page for this package. */\<newline>'' @
    ''#define PACKAGE_URL "http://capd.ii.uj.edu.pl"\<newline>'' @
    ''\<newline>'' @
    ''/* Define to the version of this package. */\<newline>'' @
    ''#define PACKAGE_VERSION "5.1.2"\<newline>'' @
    ''\<newline>'' @
    ''/* Define to 1 if you have the ANSI C header files. */\<newline>'' @
    ''#define STDC_HEADERS 1''\<close>

text \<open>The slice as a list of files: path and content.\<close>

definition repository_slice :: "(string \<times> string) list" where
  "repository_slice = [(header_path, header_text)]"

section \<open>Physical lines\<close>

text \<open>
  A text is cut at every newline character. A newline ends a line, so a text that ends
  with a newline has no further, empty line after it, and a last line that no newline
  ends counts as a line.
\<close>

fun lines_from :: "string \<Rightarrow> string \<Rightarrow> string list" where
  "lines_from cur [] = (if cur = [] then [] else [rev cur])"
| "lines_from cur (c # cs) =
     (if c = CHR ''\<newline>'' then rev cur # lines_from [] cs
      else lines_from (c # cur) cs)"

definition split_lines :: "string \<Rightarrow> string list" where
  "split_lines txt = lines_from [] txt"

definition header_lines :: "string list" where
  "header_lines = split_lines header_text"

section \<open>The preprocessor's view of a line\<close>

definition dquote :: char where
  "dquote = CHR 0x22"

definition squote :: char where
  "squote = CHR 0x27"

definition backslash :: char where
  "backslash = CHR 0x5C"

definition is_space :: "char \<Rightarrow> bool" where
  "is_space c = (c \<in> set [CHR '' '', CHR 0x09, CHR 0x0B, CHR 0x0C, CHR 0x0D])"

definition is_digit :: "char \<Rightarrow> bool" where
  "is_digit c = (c \<in> set ''0123456789'')"

definition is_ident_char :: "char \<Rightarrow> bool" where
  "is_ident_char c =
     (c \<in> set ''abcdefghijklmnopqrstuvwxyzABCDEFGHIJKLMNOPQRSTUVWXYZ_'' \<or> is_digit c)"

text \<open>
  Comments are replaced by one space each (translation phase 3). The scanner knows string
  and character literals, so that the \<^verbatim>\<open>//\<close> of a URL inside a string literal does not
  start a comment. A line on which a block comment or a literal stays open is not handled
  line by line: the scanner answers \<open>None\<close> for it.
\<close>

datatype scan_mode = In_Code | In_String | In_Char | In_Block

fun strip_comments :: "scan_mode \<Rightarrow> string \<Rightarrow> string option" where
  "strip_comments In_Code [] = Some []"
| "strip_comments In_String [] = None"
| "strip_comments In_Char [] = None"
| "strip_comments In_Block [] = None"
| "strip_comments In_Code (c # cs) =
     (if c = CHR ''/'' then
        (case cs of
           [] \<Rightarrow> Some [c]
         | d # ds \<Rightarrow>
             if d = CHR ''*'' then strip_comments In_Block ds
             else if d = CHR ''/'' then Some '' ''
             else map_option ((#) c) (strip_comments In_Code cs))
      else if c = dquote then map_option ((#) c) (strip_comments In_String cs)
      else if c = squote then map_option ((#) c) (strip_comments In_Char cs)
      else map_option ((#) c) (strip_comments In_Code cs))"
| "strip_comments In_Block (c # cs) =
     (if c = CHR ''*'' then
        (case cs of
           [] \<Rightarrow> None
         | d # ds \<Rightarrow>
             if d = CHR ''/'' then map_option ((#) CHR '' '') (strip_comments In_Code ds)
             else strip_comments In_Block cs)
      else strip_comments In_Block cs)"
| "strip_comments In_String (c # cs) =
     (if c = backslash then
        (case cs of
           [] \<Rightarrow> None
         | d # ds \<Rightarrow> map_option (\<lambda>r. c # d # r) (strip_comments In_String ds))
      else if c = dquote then map_option ((#) c) (strip_comments In_Code cs)
      else map_option ((#) c) (strip_comments In_String cs))"
| "strip_comments In_Char (c # cs) =
     (if c = backslash then
        (case cs of
           [] \<Rightarrow> None
         | d # ds \<Rightarrow> map_option (\<lambda>r. c # d # r) (strip_comments In_Char ds))
      else if c = squote then map_option ((#) c) (strip_comments In_Code cs)
      else map_option ((#) c) (strip_comments In_Char cs))"

definition trim :: "string \<Rightarrow> string" where
  "trim s = rev (dropWhile is_space (rev (dropWhile is_space s)))"

text \<open>
  The replacement list of an object-like macro: a decimal integer literal, a string
  literal (without escape sequences; the value is the text between the quotes), or any
  other token sequence, kept as text.
\<close>

datatype macro_body =
    Int_Literal nat
  | String_Literal string
  | Tokens string
  | Function_Like

definition digit_value :: "char \<Rightarrow> nat" where
  "digit_value c = of_char c - 48"

definition decimal_value :: "string \<Rightarrow> nat" where
  "decimal_value ds = foldl (\<lambda>n c. 10 * n + digit_value c) 0 ds"

definition is_decimal_literal :: "string \<Rightarrow> bool" where
  "is_decimal_literal t =
     (case t of
        [] \<Rightarrow> False
      | c # cs \<Rightarrow> list_all is_digit t \<and> (if c = CHR ''0'' then cs = [] else True))"

definition is_string_literal :: "string \<Rightarrow> bool" where
  "is_string_literal t =
     (case t of
        [] \<Rightarrow> False
      | c # cs \<Rightarrow>
          c = dquote \<and> cs \<noteq> [] \<and> last cs = dquote \<and>
          list_all (\<lambda>x. x \<noteq> dquote \<and> x \<noteq> backslash) (butlast cs))"

definition parse_body :: "string \<Rightarrow> macro_body" where
  "parse_body b =
     (let t = trim b in
      if is_decimal_literal t then Int_Literal (decimal_value t)
      else if is_string_literal t then String_Literal (butlast (tl t))
      else Tokens t)"

text \<open>
  What a physical line is to the preprocessor. \<open>Unsupported\<close> collects the lines that
  cannot be read on their own (a continuation line, an open comment or literal, a
  \<^verbatim>\<open>#define\<close> without a macro name); \<open>Code\<close> is any line with tokens that is not a
  directive, that is a declaration or a statement of C or C++.
\<close>

datatype line_kind =
    Blank
  | Comment
  | Define_Object string macro_body
  | Define_Function string
  | Undef string
  | Directive string
  | Code
  | Unsupported

definition classify_define :: "string \<Rightarrow> line_kind" where
  "classify_define r =
     (let name = takeWhile is_ident_char r;
          rest = dropWhile is_ident_char r
      in case name of
           [] \<Rightarrow> Unsupported
         | c # cs \<Rightarrow>
             if is_digit c then Unsupported
             else (case rest of
                     [] \<Rightarrow> Define_Object name (parse_body rest)
                   | x # xs \<Rightarrow>
                       if x = CHR ''('' then Define_Function name
                       else Define_Object name (parse_body rest)))"

definition classify_directive :: "string \<Rightarrow> line_kind" where
  "classify_directive d =
     (let kw = takeWhile is_ident_char d;
          rest = dropWhile is_space (dropWhile is_ident_char d)
      in if kw = ''define'' then classify_define rest
         else if kw = ''undef'' then Undef (takeWhile is_ident_char rest)
         else Directive kw)"

definition classify_line :: "string \<Rightarrow> line_kind" where
  "classify_line l =
     (if list_all is_space l then Blank
      else if last l = backslash then Unsupported
      else (case strip_comments In_Code l of
              None \<Rightarrow> Unsupported
            | Some s \<Rightarrow>
                (case dropWhile is_space s of
                   [] \<Rightarrow> Comment
                 | c # cs \<Rightarrow>
                     if c = CHR ''#'' then classify_directive (dropWhile is_space cs)
                     else Code)))"

definition header_kinds :: "line_kind list" where
  "header_kinds = map classify_line header_lines"

section \<open>The macro table after preprocessing\<close>

text \<open>
  The directives are executed in order of the lines: \<^verbatim>\<open>#define\<close> binds the name (a later
  definition replaces an earlier one), \<^verbatim>\<open>#undef\<close> removes it. Blank lines and comments
  leave the table as it is. Conditional directives are not interpreted; the header is
  shown below to have none.
\<close>

type_synonym macro_table = "(string \<times> macro_body) list"

fun preprocess_line :: "macro_table \<Rightarrow> line_kind \<Rightarrow> macro_table" where
  "preprocess_line tbl (Define_Object n b) = (n, b) # filter (\<lambda>e. fst e \<noteq> n) tbl"
| "preprocess_line tbl (Define_Function n) = (n, Function_Like) # filter (\<lambda>e. fst e \<noteq> n) tbl"
| "preprocess_line tbl (Undef n) = filter (\<lambda>e. fst e \<noteq> n) tbl"
| "preprocess_line tbl Blank = tbl"
| "preprocess_line tbl Comment = tbl"
| "preprocess_line tbl (Directive k) = tbl"
| "preprocess_line tbl Code = tbl"
| "preprocess_line tbl Unsupported = tbl"

definition preprocess :: "string \<Rightarrow> macro_table" where
  "preprocess txt = foldl preprocess_line [] (map classify_line (split_lines txt))"

definition macro_value :: "string \<Rightarrow> macro_body option" where
  "macro_value n = map_of (preprocess header_text) n"

definition is_defined :: "string \<Rightarrow> bool" where
  "is_defined n = (macro_value n \<noteq> None)"

definition string_value :: "string \<Rightarrow> string option" where
  "string_value n =
     (case macro_value n of
        Some (String_Literal s) \<Rightarrow> Some s
      | _ \<Rightarrow> None)"

section \<open>What the directives of the header say\<close>

text \<open>The macro a line defines, when it is a \<^verbatim>\<open>#define\<close>, and its replacement list.\<close>

fun define_name :: "line_kind \<Rightarrow> string option" where
  "define_name (Define_Object n b) = Some n"
| "define_name (Define_Function n) = Some n"
| "define_name Blank = None"
| "define_name Comment = None"
| "define_name (Undef n) = None"
| "define_name (Directive k) = None"
| "define_name Code = None"
| "define_name Unsupported = None"

fun define_body :: "string \<Rightarrow> line_kind \<Rightarrow> macro_body option" where
  "define_body n (Define_Object m b) = (if m = n then Some b else None)"
| "define_body n (Define_Function m) = (if m = n then Some Function_Like else None)"
| "define_body n Blank = None"
| "define_body n Comment = None"
| "define_body n (Undef m) = None"
| "define_body n (Directive k) = None"
| "define_body n Code = None"
| "define_body n Unsupported = None"

definition defined_names :: "string list" where
  "defined_names = List.map_filter define_name header_kinds"

definition definitions_of :: "string \<Rightarrow> macro_body list" where
  "definitions_of n = List.map_filter (define_body n) header_kinds"

fun is_object_define :: "line_kind \<Rightarrow> bool" where
  "is_object_define (Define_Object n b) = True"
| "is_object_define (Define_Function n) = False"
| "is_object_define Blank = False"
| "is_object_define Comment = False"
| "is_object_define (Undef n) = False"
| "is_object_define (Directive k) = False"
| "is_object_define Code = False"
| "is_object_define Unsupported = False"


fun is_directive :: "line_kind \<Rightarrow> bool" where
  "is_directive (Define_Object n b) = True"
| "is_directive (Define_Function n) = True"
| "is_directive (Undef n) = True"
| "is_directive (Directive k) = True"
| "is_directive Blank = False"
| "is_directive Comment = False"
| "is_directive Code = False"
| "is_directive Unsupported = False"

text \<open>Substring search, for the places where a macro name is written.\<close>

fun starts_with :: "string \<Rightarrow> string \<Rightarrow> bool" where
  "starts_with s [] = True"
| "starts_with [] (p # ps) = False"
| "starts_with (c # cs) (p # ps) = (c = p \<and> starts_with cs ps)"

fun contains :: "string \<Rightarrow> string \<Rightarrow> bool" where
  "contains [] p = (p = [])"
| "contains (c # cs) p = (starts_with (c # cs) p \<or> contains cs p)"

text \<open>
  The lines with their comments removed, and whether a name is written anywhere outside
  a comment. A line the scanner cannot read counts as an occurrence.
\<close>

definition stripped_lines :: "string option list" where
  "stripped_lines = map (strip_comments In_Code) header_lines"

definition occurs_outside_comments :: "string \<Rightarrow> bool" where
  "occurs_outside_comments n =
     list_ex (\<lambda>s. case s of None \<Rightarrow> True | Some t \<Rightarrow> contains t n) stripped_lines"

text \<open>
  The template slot that \<^verbatim>\<open>configure\<close> leaves for a feature it did not find: the whole
  line is the comment \<^verbatim>\<open>/* #undef NAME */\<close>.
\<close>

definition placeholder_name :: "string \<Rightarrow> string option" where
  "placeholder_name l =
     (if starts_with l ''/* #undef '' then
        (let r = drop (length ''/* #undef '') l;
             n = takeWhile is_ident_char r
         in if n \<noteq> [] \<and> dropWhile is_ident_char r = '' */'' then Some n else None)
      else None)"

definition commented_undefs :: "string list" where
  "commented_undefs = List.map_filter placeholder_name header_lines"

text \<open>ASCII lower case.\<close>

definition to_lower :: "char \<Rightarrow> char" where
  "to_lower c =
     (if c \<in> set ''ABCDEFGHIJKLMNOPQRSTUVWXYZ'' then char_of (of_char c + (32::nat)) else c)"

section \<open>Evaluating the header\<close>

text \<open>
  The text is long, so it is not scanned in one piece. The lines are written down, the
  text is shown to be these lines joined by newlines, and splitting is shown to undo
  joining. Every later fact is computed from the lines.
\<close>

fun join_lines :: "string list \<Rightarrow> string" where
  "join_lines [] = []"
| "join_lines [l] = l"
| "join_lines (l # m # ls) = l @ CHR ''\<newline>'' # join_lines (m # ls)"

definition source_lines :: "string list" where
  \<open>source_lines =
    [
     ''/* include/capd/config-capdAlg.h.  Generated from config-capdAlg.h.in by configure.  */'',
     ''/* include/capd/config-capdAlg.h.in.  Generated from configure.ac by autoheader.  */'',
     '''',
     ''/* define if the compiler supports basic C++11 syntax */'',
     ''#define HAVE_CXX11 1'',
     '''',
     ''/* Define to 1 if you have the <dlfcn.h> header file. */'',
     ''#define HAVE_DLFCN_H 1'',
     '''',
     ''/* Define to 1 if you have the <inttypes.h> header file. */'',
     ''#define HAVE_INTTYPES_H 1'',
     '''',
     ''/* Define to 1 if you have the `gmp' library (-lgmp). */'',
     ''/* #undef HAVE_LIBGMP */'',
     '''',
     ''/* Define to 1 if you have the `gmpxx' library (-lgmpxx). */'',
     ''/* #undef HAVE_LIBGMPXX */'',
     '''',
     ''/* Define to 1 if you have the `mpfr' library (-lmpfr). */'',
     ''/* #undef HAVE_LIBMPFR */'',
     '''',
     ''/* Define to 1 if you have the <memory.h> header file. */'',
     ''#define HAVE_MEMORY_H 1'',
     '''',
     ''/* Have mpcapdAlg */'',
     ''/* #undef HAVE_MPCAPD_ALG */'',
     '''',
     ''/* PARI library */'',
     ''/* #undef HAVE_PARI */'',
     '''',
     ''/* Define to 1 if you have the <stdint.h> header file. */'',
     ''#define HAVE_STDINT_H 1'',
     '''',
     ''/* Define to 1 if you have the <stdlib.h> header file. */'',
     ''#define HAVE_STDLIB_H 1'',
     '''',
     ''/* Define to 1 if you have the <strings.h> header file. */'',
     ''#define HAVE_STRINGS_H 1'',
     '''',
     ''/* Define to 1 if you have the <string.h> header file. */'',
     ''#define HAVE_STRING_H 1'',
     '''',
     ''/* Define to 1 if you have the <sys/stat.h> header file. */'',
     ''#define HAVE_SYS_STAT_H 1'',
     '''',
     ''/* Define to 1 if you have the <sys/types.h> header file. */'',
     ''#define HAVE_SYS_TYPES_H 1'',
     '''',
     ''/* Define to 1 if you have the <unistd.h> header file. */'',
     ''#define HAVE_UNISTD_H 1'',
     '''',
     ''/* Define to the sub-directory where libtool stores uninstalled libraries. */'',
     ''#define LT_OBJDIR ".libs/"'',
     '''',
     ''/* Define to the address where bug reports for this package should be sent. */'',
     ''#define PACKAGE_BUGREPORT "http://capd.ii.uj.edu.pl"'',
     '''',
     ''/* Define to the full name of this package. */'',
     ''#define PACKAGE_NAME "capdAlg"'',
     '''',
     ''/* Define to the full name and version of this package. */'',
     ''#define PACKAGE_STRING "capdAlg 5.1.2"'',
     '''',
     ''/* Define to the one symbol short name of this package. */'',
     ''#define PACKAGE_TARNAME "capdalg"'',
     '''',
     ''/* Define to the home page for this package. */'',
     ''#define PACKAGE_URL "http://capd.ii.uj.edu.pl"'',
     '''',
     ''/* Define to the version of this package. */'',
     ''#define PACKAGE_VERSION "5.1.2"'',
     '''',
     ''/* Define to 1 if you have the ANSI C header files. */'',
     ''#define STDC_HEADERS 1''
    ]\<close>

lemma lines_from_line:
  "list_all (\<lambda>c. c \<noteq> CHR ''\<newline>'') l \<Longrightarrow>
     lines_from cur (l @ CHR ''\<newline>'' # rest) = (rev cur @ l) # lines_from [] rest"
  by (induction l arbitrary: cur) auto

lemma lines_from_last:
  "list_all (\<lambda>c. c \<noteq> CHR ''\<newline>'') l \<Longrightarrow>
     lines_from cur l = (if rev cur @ l = [] then [] else [rev cur @ l])"
  by (induction l arbitrary: cur) auto

lemma split_join_lines:
  assumes "list_all (list_all (\<lambda>c. c \<noteq> CHR ''\<newline>'')) ls" and "last ls \<noteq> []"
  shows "split_lines (join_lines ls) = ls"
  using assms unfolding split_lines_def
proof (induction ls rule: join_lines.induct)
  case 1
  then show ?case by simp
next
  case (2 l)
  then show ?case by (simp add: lines_from_last)
next
  case (3 l m ls)
  then show ?case by (simp add: lines_from_line)
qed

lemma no_newline_filter:
  "list_all (\<lambda>c. c \<noteq> CHR ''\<newline>'') l \<Longrightarrow> filter (\<lambda>c. c = CHR ''\<newline>'') l = []"
  by (induction l) auto

lemma newlines_of_join_lines:
  "list_all (list_all (\<lambda>c. c \<noteq> CHR ''\<newline>'')) ls \<Longrightarrow>
     length (filter (\<lambda>c. c = CHR ''\<newline>'') (join_lines ls)) = length ls - 1"
  by (induction ls rule: join_lines.induct) (simp_all add: no_newline_filter)

lemma header_text_join: "header_text = join_lines source_lines"
  by (simp add: header_text_def source_lines_def)

lemma source_lines_no_newline:
  "list_all (list_all (\<lambda>c. c \<noteq> CHR ''\<newline>'')) source_lines"
  by (simp add: source_lines_def)

lemma source_lines_last: "last source_lines \<noteq> []"
  by (simp add: source_lines_def)

lemma header_lines_eq: "header_lines = source_lines"
  using source_lines_no_newline source_lines_last
  by (simp add: header_lines_def header_text_join split_join_lines)

lemma header_kinds_eq:
  \<open>header_kinds =
    [
     Comment,
     Comment,
     Blank,
     Comment,
     Define_Object ''HAVE_CXX11'' (Int_Literal 1),
     Blank,
     Comment,
     Define_Object ''HAVE_DLFCN_H'' (Int_Literal 1),
     Blank,
     Comment,
     Define_Object ''HAVE_INTTYPES_H'' (Int_Literal 1),
     Blank,
     Comment,
     Comment,
     Blank,
     Comment,
     Comment,
     Blank,
     Comment,
     Comment,
     Blank,
     Comment,
     Define_Object ''HAVE_MEMORY_H'' (Int_Literal 1),
     Blank,
     Comment,
     Comment,
     Blank,
     Comment,
     Comment,
     Blank,
     Comment,
     Define_Object ''HAVE_STDINT_H'' (Int_Literal 1),
     Blank,
     Comment,
     Define_Object ''HAVE_STDLIB_H'' (Int_Literal 1),
     Blank,
     Comment,
     Define_Object ''HAVE_STRINGS_H'' (Int_Literal 1),
     Blank,
     Comment,
     Define_Object ''HAVE_STRING_H'' (Int_Literal 1),
     Blank,
     Comment,
     Define_Object ''HAVE_SYS_STAT_H'' (Int_Literal 1),
     Blank,
     Comment,
     Define_Object ''HAVE_SYS_TYPES_H'' (Int_Literal 1),
     Blank,
     Comment,
     Define_Object ''HAVE_UNISTD_H'' (Int_Literal 1),
     Blank,
     Comment,
     Define_Object ''LT_OBJDIR'' (String_Literal ''.libs/''),
     Blank,
     Comment,
     Define_Object ''PACKAGE_BUGREPORT'' (String_Literal ''http://capd.ii.uj.edu.pl''),
     Blank,
     Comment,
     Define_Object ''PACKAGE_NAME'' (String_Literal ''capdAlg''),
     Blank,
     Comment,
     Define_Object ''PACKAGE_STRING'' (String_Literal ''capdAlg 5.1.2''),
     Blank,
     Comment,
     Define_Object ''PACKAGE_TARNAME'' (String_Literal ''capdalg''),
     Blank,
     Comment,
     Define_Object ''PACKAGE_URL'' (String_Literal ''http://capd.ii.uj.edu.pl''),
     Blank,
     Comment,
     Define_Object ''PACKAGE_VERSION'' (String_Literal ''5.1.2''),
     Blank,
     Comment,
     Define_Object ''STDC_HEADERS'' (Int_Literal 1)
    ]\<close>
  by (simp add: header_kinds_def header_lines_eq source_lines_def classify_line_def
      classify_directive_def classify_define_def parse_body_def trim_def is_space_def
      is_digit_def is_ident_char_def dquote_def squote_def backslash_def
      is_decimal_literal_def is_string_literal_def decimal_value_def digit_value_def)

lemma stripped_lines_eq:
  \<open>stripped_lines =
    [
     Some '' '',
     Some '' '',
     Some [],
     Some '' '',
     Some ''#define HAVE_CXX11 1'',
     Some [],
     Some '' '',
     Some ''#define HAVE_DLFCN_H 1'',
     Some [],
     Some '' '',
     Some ''#define HAVE_INTTYPES_H 1'',
     Some [],
     Some '' '',
     Some '' '',
     Some [],
     Some '' '',
     Some '' '',
     Some [],
     Some '' '',
     Some '' '',
     Some [],
     Some '' '',
     Some ''#define HAVE_MEMORY_H 1'',
     Some [],
     Some '' '',
     Some '' '',
     Some [],
     Some '' '',
     Some '' '',
     Some [],
     Some '' '',
     Some ''#define HAVE_STDINT_H 1'',
     Some [],
     Some '' '',
     Some ''#define HAVE_STDLIB_H 1'',
     Some [],
     Some '' '',
     Some ''#define HAVE_STRINGS_H 1'',
     Some [],
     Some '' '',
     Some ''#define HAVE_STRING_H 1'',
     Some [],
     Some '' '',
     Some ''#define HAVE_SYS_STAT_H 1'',
     Some [],
     Some '' '',
     Some ''#define HAVE_SYS_TYPES_H 1'',
     Some [],
     Some '' '',
     Some ''#define HAVE_UNISTD_H 1'',
     Some [],
     Some '' '',
     Some ''#define LT_OBJDIR ".libs/"'',
     Some [],
     Some '' '',
     Some ''#define PACKAGE_BUGREPORT "http://capd.ii.uj.edu.pl"'',
     Some [],
     Some '' '',
     Some ''#define PACKAGE_NAME "capdAlg"'',
     Some [],
     Some '' '',
     Some ''#define PACKAGE_STRING "capdAlg 5.1.2"'',
     Some [],
     Some '' '',
     Some ''#define PACKAGE_TARNAME "capdalg"'',
     Some [],
     Some '' '',
     Some ''#define PACKAGE_URL "http://capd.ii.uj.edu.pl"'',
     Some [],
     Some '' '',
     Some ''#define PACKAGE_VERSION "5.1.2"'',
     Some [],
     Some '' '',
     Some ''#define STDC_HEADERS 1''
    ]\<close>
  by (simp add: stripped_lines_def header_lines_eq source_lines_def dquote_def squote_def
      backslash_def)

lemma preprocess_header:
  \<open>preprocess header_text =
    [
     (''STDC_HEADERS'', Int_Literal 1),
     (''PACKAGE_VERSION'', String_Literal ''5.1.2''),
     (''PACKAGE_URL'', String_Literal ''http://capd.ii.uj.edu.pl''),
     (''PACKAGE_TARNAME'', String_Literal ''capdalg''),
     (''PACKAGE_STRING'', String_Literal ''capdAlg 5.1.2''),
     (''PACKAGE_NAME'', String_Literal ''capdAlg''),
     (''PACKAGE_BUGREPORT'', String_Literal ''http://capd.ii.uj.edu.pl''),
     (''LT_OBJDIR'', String_Literal ''.libs/''),
     (''HAVE_UNISTD_H'', Int_Literal 1),
     (''HAVE_SYS_TYPES_H'', Int_Literal 1),
     (''HAVE_SYS_STAT_H'', Int_Literal 1),
     (''HAVE_STRING_H'', Int_Literal 1),
     (''HAVE_STRINGS_H'', Int_Literal 1),
     (''HAVE_STDLIB_H'', Int_Literal 1),
     (''HAVE_STDINT_H'', Int_Literal 1),
     (''HAVE_MEMORY_H'', Int_Literal 1),
     (''HAVE_INTTYPES_H'', Int_Literal 1),
     (''HAVE_DLFCN_H'', Int_Literal 1),
     (''HAVE_CXX11'', Int_Literal 1)
    ]\<close>
  using header_kinds_eq
  by (simp add: preprocess_def header_kinds_def header_lines_def)

lemma defined_names_eq:
  \<open>defined_names =
    [
     ''HAVE_CXX11'',
     ''HAVE_DLFCN_H'',
     ''HAVE_INTTYPES_H'',
     ''HAVE_MEMORY_H'',
     ''HAVE_STDINT_H'',
     ''HAVE_STDLIB_H'',
     ''HAVE_STRINGS_H'',
     ''HAVE_STRING_H'',
     ''HAVE_SYS_STAT_H'',
     ''HAVE_SYS_TYPES_H'',
     ''HAVE_UNISTD_H'',
     ''LT_OBJDIR'',
     ''PACKAGE_BUGREPORT'',
     ''PACKAGE_NAME'',
     ''PACKAGE_STRING'',
     ''PACKAGE_TARNAME'',
     ''PACKAGE_URL'',
     ''PACKAGE_VERSION'',
     ''STDC_HEADERS''
    ]\<close>
  by (simp add: defined_names_def header_kinds_eq)

lemma commented_undefs_eq:
  "commented_undefs =
     [''HAVE_LIBGMP'', ''HAVE_LIBGMPXX'', ''HAVE_LIBMPFR'', ''HAVE_MPCAPD_ALG'', ''HAVE_PARI'']"
  by (simp add: commented_undefs_def header_lines_eq source_lines_def placeholder_name_def
      is_ident_char_def is_digit_def)

lemma to_lower_capdAlg: "map to_lower ''capdAlg'' = ''capdalg''"
  by code_simp

section \<open>The claims\<close>

text \<open>
  C1: every feature-detection macro that the header defines (\<^verbatim>\<open>HAVE_CXX11\<close>,
  \<^verbatim>\<open>HAVE_DLFCN_H\<close>, \<^verbatim>\<open>HAVE_INTTYPES_H\<close>, \<^verbatim>\<open>HAVE_MEMORY_H\<close>, \<^verbatim>\<open>HAVE_STDINT_H\<close>,
  \<^verbatim>\<open>HAVE_STDLIB_H\<close>, \<^verbatim>\<open>HAVE_STRINGS_H\<close>, \<^verbatim>\<open>HAVE_STRING_H\<close>, \<^verbatim>\<open>HAVE_SYS_STAT_H\<close>,
  \<^verbatim>\<open>HAVE_SYS_TYPES_H\<close>, \<^verbatim>\<open>HAVE_UNISTD_H\<close>, \<^verbatim>\<open>STDC_HEADERS\<close>) is defined to the literal 1.
  These twelve are all the defined macros whose name starts with \<^verbatim>\<open>HAVE_\<close> or is
  \<^verbatim>\<open>STDC_HEADERS\<close>; in particular \<^verbatim>\<open>HAVE_DLFCN_H\<close> is 1 and \<^verbatim>\<open>HAVE_STDINT_H\<close> is defined.
\<close>

theorem feature_macros_defined_to_1:
  "(\<forall>n \<in> set [''HAVE_CXX11'', ''HAVE_DLFCN_H'', ''HAVE_INTTYPES_H'', ''HAVE_MEMORY_H'',
        ''HAVE_STDINT_H'', ''HAVE_STDLIB_H'', ''HAVE_STRINGS_H'', ''HAVE_STRING_H'',
        ''HAVE_SYS_STAT_H'', ''HAVE_SYS_TYPES_H'', ''HAVE_UNISTD_H'', ''STDC_HEADERS''].
      macro_value n = Some (Int_Literal 1)) \<and>
   filter (\<lambda>n. starts_with n ''HAVE_'' \<or> n = ''STDC_HEADERS'') defined_names =
     [''HAVE_CXX11'', ''HAVE_DLFCN_H'', ''HAVE_INTTYPES_H'', ''HAVE_MEMORY_H'',
        ''HAVE_STDINT_H'', ''HAVE_STDLIB_H'', ''HAVE_STRINGS_H'', ''HAVE_STRING_H'',
        ''HAVE_SYS_STAT_H'', ''HAVE_SYS_TYPES_H'', ''HAVE_UNISTD_H'', ''STDC_HEADERS''] \<and>
   macro_value ''HAVE_DLFCN_H'' = Some (Int_Literal 1) \<and>
   is_defined ''HAVE_STDINT_H''"
  by (simp add: macro_value_def is_defined_def preprocess_header defined_names_eq)

theorem feature_macros_defined_to_1_witness:
  "macro_value ''HAVE_UNISTD_H'' = Some (Int_Literal 1)"
  using feature_macros_defined_to_1 by simp

text \<open>
  C2: each optional numeric-backend macro, \<^verbatim>\<open>HAVE_LIBGMP\<close>, \<^verbatim>\<open>HAVE_LIBGMPXX\<close>,
  \<^verbatim>\<open>HAVE_LIBMPFR\<close>, \<^verbatim>\<open>HAVE_PARI\<close> and \<^verbatim>\<open>HAVE_MPCAPD_ALG\<close>, is undefined after
  preprocessing: the header has the comment line \<^verbatim>\<open>/* #undef NAME */\<close> for it, and the
  name is written nowhere outside a comment. These five are all the names that have such a
  comment line.
\<close>

theorem optional_backends_undefined:
  "(\<forall>n \<in> set [''HAVE_LIBGMP'', ''HAVE_LIBGMPXX'', ''HAVE_LIBMPFR'', ''HAVE_PARI'',
               ''HAVE_MPCAPD_ALG''].
      \<not> is_defined n \<and> n \<in> set commented_undefs \<and> \<not> occurs_outside_comments n) \<and>
   set commented_undefs =
     set [''HAVE_LIBGMP'', ''HAVE_LIBGMPXX'', ''HAVE_LIBMPFR'', ''HAVE_PARI'', ''HAVE_MPCAPD_ALG'']"
proof -
  have undefined: "\<not> is_defined ''HAVE_LIBGMP''" "\<not> is_defined ''HAVE_LIBGMPXX''"
    "\<not> is_defined ''HAVE_LIBMPFR''" "\<not> is_defined ''HAVE_PARI''"
    "\<not> is_defined ''HAVE_MPCAPD_ALG''"
    by (simp_all add: is_defined_def macro_value_def preprocess_header)
  have absent: "\<not> occurs_outside_comments ''HAVE_LIBGMP''"
    "\<not> occurs_outside_comments ''HAVE_LIBGMPXX''"
    "\<not> occurs_outside_comments ''HAVE_LIBMPFR''"
    "\<not> occurs_outside_comments ''HAVE_PARI''"
    "\<not> occurs_outside_comments ''HAVE_MPCAPD_ALG''"
    by (simp_all add: occurs_outside_comments_def stripped_lines_eq)
  have slots: "set commented_undefs =
      set [''HAVE_LIBGMP'', ''HAVE_LIBGMPXX'', ''HAVE_LIBMPFR'', ''HAVE_PARI'', ''HAVE_MPCAPD_ALG'']"
    by (auto simp add: commented_undefs_eq)
  show ?thesis
    unfolding slots using undefined absent by simp
qed

theorem optional_backends_undefined_witness:
  "\<not> is_defined ''HAVE_LIBGMP'' \<and> ''HAVE_LIBGMP'' \<in> set commented_undefs \<and>
   \<not> occurs_outside_comments ''HAVE_LIBGMP''"
  using optional_backends_undefined by simp



text \<open>
  C4: \<^verbatim>\<open>PACKAGE_VERSION\<close> is defined to the string literal \<^verbatim>\<open>"5.1.2"\<close> and
  \<^verbatim>\<open>PACKAGE_STRING\<close> to the string literal \<^verbatim>\<open>"capdAlg 5.1.2"\<close>.
\<close>

theorem package_version_and_string:
  "macro_value ''PACKAGE_VERSION'' = Some (String_Literal ''5.1.2'') \<and>
   macro_value ''PACKAGE_STRING'' = Some (String_Literal ''capdAlg 5.1.2'')"
  by (simp add: macro_value_def preprocess_header)

text \<open>
  C5: each of \<^verbatim>\<open>PACKAGE_NAME\<close>, \<^verbatim>\<open>PACKAGE_VERSION\<close>, \<^verbatim>\<open>PACKAGE_URL\<close> and
  \<^verbatim>\<open>PACKAGE_BUGREPORT\<close> is defined, and its value is a string literal.
\<close>

theorem package_constants_are_strings:
  "\<forall>n \<in> set [''PACKAGE_NAME'', ''PACKAGE_VERSION'', ''PACKAGE_URL'', ''PACKAGE_BUGREPORT''].
     is_defined n \<and> (\<exists>s. macro_value n = Some (String_Literal s))"
  by (simp add: is_defined_def macro_value_def preprocess_header)

theorem package_constants_are_strings_witness:
  "is_defined ''PACKAGE_URL'' \<and>
   (\<exists>s. macro_value ''PACKAGE_URL'' = Some (String_Literal s))"
  using package_constants_are_strings by simp

text \<open>
  C6: every line of the header is blank, a comment or the definition of an object-like
  macro. There is no conditional directive and no \<^verbatim>\<open>#include\<close> (no directive other than
  \<^verbatim>\<open>#define\<close> at all), and no line of C or C++ code.
\<close>

theorem header_has_no_code:
  "list_all (\<lambda>k. k = Blank \<or> k = Comment \<or> is_object_define k) header_kinds \<and>
   (\<forall>kw \<in> set [''if'', ''ifdef'', ''ifndef'', ''else'', ''elif'', ''endif'', ''include''].
      Directive kw \<notin> set header_kinds) \<and>
   filter is_directive header_kinds = filter is_object_define header_kinds \<and>
   Code \<notin> set header_kinds \<and> Unsupported \<notin> set header_kinds"
  by (simp add: header_kinds_eq)

theorem header_has_no_code_witness:
  "Directive ''ifdef'' \<notin> set header_kinds"
  using header_has_no_code by simp

text \<open>
  C7: the repository slice is one file, the header \<^verbatim>\<open>config-capdAlg.h\<close>, and the header
  has 74 lines. The text has 73 newline characters: line 74, the definition of
  \<^verbatim>\<open>STDC_HEADERS\<close>, ends the file with no newline after it.
\<close>

theorem slice_is_one_header_of_74_lines:
  "length repository_slice = 1 \<and>
   map (\<lambda>f. (fst f, length (split_lines (snd f)))) repository_slice = [(header_path, 74)] \<and>
   length (filter (\<lambda>c. c = CHR ''\<newline>'') header_text) = 73 \<and>
   last header_lines = ''#define STDC_HEADERS 1''"
proof -
  have "length source_lines = 74" and "last source_lines = ''#define STDC_HEADERS 1''"
    by (simp_all add: source_lines_def)
  moreover have "split_lines header_text = source_lines"
    using header_lines_eq by (simp add: header_lines_def)
  moreover have "length (filter (\<lambda>c. c = CHR ''\<newline>'') header_text) = length source_lines - 1"
    using source_lines_no_newline by (simp add: header_text_join newlines_of_join_lines)
  ultimately show ?thesis
    by (simp add: repository_slice_def header_lines_def)
qed

text \<open>
  C8: the value of \<^verbatim>\<open>PACKAGE_STRING\<close> is the value of \<^verbatim>\<open>PACKAGE_NAME\<close>, one space and the
  value of \<^verbatim>\<open>PACKAGE_VERSION\<close>.
\<close>

theorem package_string_is_name_space_version:
  "\<exists>n v. string_value ''PACKAGE_NAME'' = Some n \<and> string_value ''PACKAGE_VERSION'' = Some v \<and>
     string_value ''PACKAGE_STRING'' = Some (n @ '' '' @ v)"
  by (simp add: string_value_def macro_value_def preprocess_header)

text \<open>
  C9: no macro is defined twice. The names of the \<^verbatim>\<open>#define\<close> directives are pairwise
  distinct; each of them has one \<^verbatim>\<open>#define\<close> directive, and the macro table binds the name
  to the value of that directive.
\<close>

theorem macros_defined_once:
  "distinct defined_names \<and>
   (\<forall>n \<in> set defined_names.
      count_list defined_names n = 1 \<and>
      (\<exists>b. definitions_of n = [b] \<and> macro_value n = Some b))"
  by (simp add: defined_names_eq definitions_of_def header_kinds_eq
      macro_value_def preprocess_header)

theorem macros_defined_once_witness:
  "''PACKAGE_NAME'' \<in> set defined_names \<and> count_list defined_names ''PACKAGE_NAME'' = 1"
  using macros_defined_once by (simp add: defined_names_eq)

text \<open>
  C10: the value of \<^verbatim>\<open>PACKAGE_TARNAME\<close> is the value of \<^verbatim>\<open>PACKAGE_NAME\<close> in ASCII lower
  case, and \<^verbatim>\<open>PACKAGE_URL\<close> and \<^verbatim>\<open>PACKAGE_BUGREPORT\<close> have the same value,
  \<^verbatim>\<open>"http://capd.ii.uj.edu.pl"\<close>.
\<close>

theorem tarname_lowercase_and_url_is_bugreport:
  "(\<exists>n. string_value ''PACKAGE_NAME'' = Some n \<and>
        string_value ''PACKAGE_TARNAME'' = Some (map to_lower n)) \<and>
   string_value ''PACKAGE_URL'' = string_value ''PACKAGE_BUGREPORT'' \<and>
   string_value ''PACKAGE_URL'' = Some ''http://capd.ii.uj.edu.pl''"
  using to_lower_capdAlg
  by (simp add: string_value_def macro_value_def preprocess_header)

end
